theory Spec2Isabelle
  imports Complex_Main
begin

section \<open>Calendar dates, as the gamification service uses them\<close>

text \<open>
  The service reads \<^verbatim>\<open>date.today()\<close>, stores it with \<^verbatim>\<open>isoformat()\<close>, reads it
  back with \<^verbatim>\<open>datetime.strptime(s, '%Y-%m-%d').date()\<close>, subtracts two dates and asks
  for \<^verbatim>\<open>weekday()\<close>. A date is a year, a month and a day of the proleptic Gregorian
  calendar; \<open>valid_date\<close> is what the constructor of Python's \<^verbatim>\<open>date\<close> accepts.
\<close>

record date =
  year :: nat
  month :: nat
  day :: nat

definition is_leap :: "nat \<Rightarrow> bool" where
  "is_leap y = (y mod 4 = 0 \<and> (y mod 100 \<noteq> 0 \<or> y mod 400 = 0))"

definition days_in_month :: "nat \<Rightarrow> nat \<Rightarrow> nat" where
  "days_in_month y m =
     (if m = 2 then (if is_leap y then 29 else 28)
      else if m = 4 \<or> m = 6 \<or> m = 9 \<or> m = 11 then 30 else 31)"

definition valid_date :: "date \<Rightarrow> bool" where
  "valid_date d =
     (1 \<le> year d \<and> year d \<le> 9999 \<and> 1 \<le> month d \<and> month d \<le> 12 \<and>
      1 \<le> day d \<and> day d \<le> days_in_month (year d) (month d))"

definition days_before_year :: "nat \<Rightarrow> nat" where
  "days_before_year y = (y - 1) * 365 + (y - 1) div 4 - (y - 1) div 100 + (y - 1) div 400"

definition days_before_month :: "nat \<Rightarrow> nat \<Rightarrow> nat" where
  "days_before_month y m = sum_list (map (days_in_month y) [1..<m])"

definition toordinal :: "date \<Rightarrow> int" where
  "toordinal d = int (days_before_year (year d) + days_before_month (year d) (month d) + day d)"

text \<open>\<^verbatim>\<open>weekday()\<close>: Monday is 0, Sunday is 6.\<close>

definition weekday :: "date \<Rightarrow> int" where
  "weekday d = (toordinal d + 6) mod 7"

text \<open>\<^verbatim>\<open>(a - b).days\<close>\<close>

definition days_between :: "date \<Rightarrow> date \<Rightarrow> int" where
  "days_between a b = toordinal a - toordinal b"

subsection \<open>isoformat\<close>

definition digit_char :: "nat \<Rightarrow> char" where
  "digit_char n = ''0123456789'' ! (n mod 10)"

text \<open>\<^verbatim>\<open>"%04d-%02d-%02d" % (year, month, day)\<close>\<close>

definition isoformat :: "date \<Rightarrow> string" where
  "isoformat d =
     [digit_char (year d div 1000), digit_char (year d div 100),
      digit_char (year d div 10), digit_char (year d), CHR ''-'',
      digit_char (month d div 10), digit_char (month d), CHR ''-'',
      digit_char (day d div 10), digit_char (day d)]"

subsection \<open>strptime with the format %Y-%m-%d\<close>

text \<open>
  \<^verbatim>\<open>strptime\<close> turns the format into a regular expression, matches it at the start of
  the string, raises \<^verbatim>\<open>ValueError\<close> when no match is found or when text remains after
  the match, and raises it again when the three numbers are not a date. The directives
  are \<^verbatim>\<open>%Y = \d\d\d\d\<close>, \<^verbatim>\<open>%m = 1[0-2]|0[1-9]|[1-9]\<close> and
  \<^verbatim>\<open>%d = 3[01]|[12]\d|0[1-9]|[1-9]| [1-9]\<close>; the alternatives are tried in this order.
  A two-character alternative that matches is never given up for a one-character one:
  after the month the next character would have to be both a digit and the hyphen, and
  the day is the end of the expression. Strings are bytes here, so a digit is an ASCII
  digit. \<open>None\<close> stands for the \<^verbatim>\<open>ValueError\<close>.
\<close>

definition digit_of :: "char \<Rightarrow> nat option" where
  "digit_of c =
     map_of [(CHR ''0'', 0), (CHR ''1'', 1), (CHR ''2'', 2), (CHR ''3'', 3), (CHR ''4'', 4),
             (CHR ''5'', 5), (CHR ''6'', 6), (CHR ''7'', 7), (CHR ''8'', 8), (CHR ''9'', 9)] c"

definition match_year :: "string \<Rightarrow> (nat \<times> string) option" where
  "match_year s =
     (case s of
        a # b # c # d # rest \<Rightarrow>
          (case (digit_of a, digit_of b, digit_of c, digit_of d) of
             (Some a', Some b', Some c', Some d') \<Rightarrow>
               Some (1000 * a' + 100 * b' + 10 * c' + d', rest)
           | _ \<Rightarrow> None)
      | _ \<Rightarrow> None)"

definition match_month :: "string \<Rightarrow> (nat \<times> string) option" where
  "match_month s =
     (case s of
        [] \<Rightarrow> None
      | a # t \<Rightarrow>
          (case (digit_of a, case t of [] \<Rightarrow> None | b # _ \<Rightarrow> digit_of b) of
             (Some a', Some b') \<Rightarrow>
               if a' = 1 \<and> b' \<le> 2 then Some (10 + b', tl t)
               else if a' = 0 \<and> 1 \<le> b' then Some (b', tl t)
               else if 1 \<le> a' then Some (a', t)
               else None
           | (Some a', None) \<Rightarrow> if 1 \<le> a' then Some (a', t) else None
           | (None, _) \<Rightarrow> None))"

definition match_day :: "string \<Rightarrow> (nat \<times> string) option" where
  "match_day s =
     (case s of
        [] \<Rightarrow> None
      | a # t \<Rightarrow>
          (case (digit_of a, case t of [] \<Rightarrow> None | b # _ \<Rightarrow> digit_of b) of
             (Some a', Some b') \<Rightarrow>
               if a' = 3 \<and> b' \<le> 1 then Some (30 + b', tl t)
               else if (a' = 1 \<or> a' = 2) then Some (10 * a' + b', tl t)
               else if a' = 0 \<and> 1 \<le> b' then Some (b', tl t)
               else if 1 \<le> a' then Some (a', t)
               else None
           | (Some a', None) \<Rightarrow> if 1 \<le> a' then Some (a', t) else None
           | (None, Some b') \<Rightarrow> if a = CHR '' '' \<and> 1 \<le> b' then Some (b', tl t) else None
           | (None, None) \<Rightarrow> None))"

definition match_hyphen :: "string \<Rightarrow> string option" where
  "match_hyphen s = (case s of [] \<Rightarrow> None | c # t \<Rightarrow> if c = CHR ''-'' then Some t else None)"

definition strptime_ymd :: "string \<Rightarrow> date option" where
  "strptime_ymd s =
     (case match_year s of
        None \<Rightarrow> None
      | Some (y, s1) \<Rightarrow>
          (case match_hyphen s1 of
             None \<Rightarrow> None
           | Some s2 \<Rightarrow>
               (case match_month s2 of
                  None \<Rightarrow> None
                | Some (m, s3) \<Rightarrow>
                    (case match_hyphen s3 of
                       None \<Rightarrow> None
                     | Some s4 \<Rightarrow>
                         (case match_day s4 of
                            None \<Rightarrow> None
                          | Some (d, s5) \<Rightarrow>
                              if s5 \<noteq> [] then None
                              else if valid_date \<lparr>year = y, month = m, day = d\<rparr>
                              then Some \<lparr>year = y, month = m, day = d\<rparr>
                              else None)))))"

section \<open>The store (core/database.py)\<close>

text \<open>
  One row of the table \<^verbatim>\<open>user_stats\<close>. Python integers are unbounded, so the
  counters are \<open>int\<close>; the 64-bit limit of an SQLite INTEGER is outside this model.
  \<open>last_activity_date\<close> is the TEXT column: \<open>None\<close> is NULL.
\<close>

record user_stats =
  current_streak :: int
  longest_streak :: int
  total_points :: int
  total_streak_days :: int
  last_activity_date :: "string option"
  freeze_used_this_week :: bool
  recovery_used_this_month :: bool

text \<open>
  The rows of the service's own user: its \<^verbatim>\<open>user_stats\<close> row if there is one, the
  \<^verbatim>\<open>milestone_days\<close> of its rows in \<^verbatim>\<open>streak_milestones\<close> (primary key
  \<^verbatim>\<open>(user_id, milestone_days)\<close>), and its rows in \<^verbatim>\<open>daily_engagement\<close>, keyed by
  \<^verbatim>\<open>activity_date\<close>, each with \<^verbatim>\<open>actions_count\<close> and \<^verbatim>\<open>actions_types\<close>.
\<close>

record database =
  user_stats_row :: "user_stats option"
  streak_milestones :: "int set"
  daily_engagement :: "string \<rightharpoonup> int \<times> string"

text \<open>
  Every method of the store opens a connection, runs one statement and commits; an
  \<^verbatim>\<open>sqlite3.Error\<close> rolls the statement back and is raised again. Whether a given
  access fails is decided by the environment: \<open>db_call\<close> names the ten places where
  \<^verbatim>\<open>record_engagement\<close> reaches the store, in the order it reaches them, and the read
  of \<^verbatim>\<open>get_user_progress\<close>; a set of them says which accesses of one call fail.
\<close>

datatype db_error = OperationalError | IntegrityError

datatype db_call =
    LedgerWrite | StreakRead | StreakWrite | PointsRead | PointsWrite
  | MilestoneRead | MilestoneWrite | MilestoneInsert | LevelRead | TotalRead
  | ProgressRead

type_synonym faults = "db_call set"

definition get_user_stats :: "faults \<Rightarrow> db_call \<Rightarrow> database \<Rightarrow> db_error + user_stats option" where
  "get_user_stats F k db = (if k \<in> F then Inl OperationalError else Inr (user_stats_row db))"

text \<open>
  \<^verbatim>\<open>update_user_stats\<close> is an UPDATE of the row with the given user id: without such a
  row it changes nothing and still returns. Every caller in the service passes the four
  required keys, so the \<^verbatim>\<open>ValueError\<close> for a missing one is never raised. The four CHECK constraints of the schema
  reject a negative counter. No caller in the service puts
  \<^verbatim>\<open>freeze_used_this_week\<close> or \<^verbatim>\<open>recovery_used_this_month\<close> into the dictionary, so
  \<^verbatim>\<open>stats_data.get(..., False)\<close> writes \<open>False\<close> into both columns. The arguments are
  the values under the keys \<^verbatim>\<open>current_streak\<close>, \<^verbatim>\<open>longest_streak\<close>,
  \<^verbatim>\<open>total_points\<close>, \<^verbatim>\<open>total_streak_days\<close> and \<^verbatim>\<open>last_activity_date\<close>.
\<close>

definition update_user_stats ::
  "faults \<Rightarrow> db_call \<Rightarrow> int \<Rightarrow> int \<Rightarrow> int \<Rightarrow> int \<Rightarrow> string option \<Rightarrow> database
     \<Rightarrow> db_error + database" where
  "update_user_stats F k cs ls tp tsd lad db =
     (if k \<in> F then Inl OperationalError
      else case user_stats_row db of
             None \<Rightarrow> Inr db
           | Some _ \<Rightarrow>
               if cs < 0 \<or> ls < 0 \<or> tp < 0 \<or> tsd < 0 then Inl IntegrityError
               else Inr (db\<lparr>user_stats_row := Some
                      \<lparr>current_streak = cs, longest_streak = ls, total_points = tp,
                       total_streak_days = tsd, last_activity_date = lad,
                       freeze_used_this_week = False,
                       recovery_used_this_month = False\<rparr>\<rparr>))"

text \<open>INSERT ... ON CONFLICT(user_id, activity_date) DO UPDATE.\<close>

definition record_daily_engagement ::
  "faults \<Rightarrow> date \<Rightarrow> string \<Rightarrow> database \<Rightarrow> db_error + database" where
  "record_daily_engagement F today action_type db =
     (if LedgerWrite \<in> F then Inl OperationalError
      else Inr (db\<lparr>daily_engagement :=
             (daily_engagement db)(isoformat today \<mapsto>
               (case daily_engagement db (isoformat today) of
                  None \<Rightarrow> (1, action_type)
                | Some (n, types) \<Rightarrow> (n + 1, types @ '','' @ action_type)))\<rparr>))"

text \<open>INSERT OR REPLACE INTO streak_milestones.\<close>

definition add_streak_milestone :: "faults \<Rightarrow> int \<Rightarrow> database \<Rightarrow> db_error + database" where
  "add_streak_milestone F milestone_days db =
     (if MilestoneInsert \<in> F then Inl OperationalError
      else Inr (db\<lparr>streak_milestones := insert milestone_days (streak_milestones db)\<rparr>))"

section \<open>GamificationService (core/services/gamification_service.py)\<close>

subsection \<open>Configuration\<close>

definition POINTS_CONFIG :: "(string \<times> int) list" where
  "POINTS_CONFIG =
     [(''transaction_added'', 10), (''dashboard_viewed'', 5), (''goal_checked'', 3),
      (''weekly_review_completed'', 25), (''category_analysis_viewed'', 15)]"

text \<open>
  The texts of the service carry emoji and accents; they are written here in ASCII.
  \<open>STREAK_MILESTONES\<close> lists the dictionary in its insertion order, which is the order
  in which \<^verbatim>\<open>.items()\<close> yields it: days, points, message.
\<close>

definition STREAK_MILESTONES :: "(int \<times> int \<times> string) list" where
  "STREAK_MILESTONES =
     [(3, 25, ''3 dias seguidos!''), (7, 50, ''1 semana completa!''),
      (14, 100, ''2 semanas!''), (30, 250, ''1 MES!''), (90, 500, ''3 MESES!'')]"

record level_info =
  level_points :: int
  level_name :: string

definition LEVELS :: "level_info list" where
  "LEVELS =
     [\<lparr>level_points = 0, level_name = ''Recien Llegado''\<rparr>,
      \<lparr>level_points = 100, level_name = ''Operador Junior''\<rparr>,
      \<lparr>level_points = 300, level_name = ''Analista Senior''\<rparr>,
      \<lparr>level_points = 600, level_name = ''Fund Manager''\<rparr>,
      \<lparr>level_points = 1000, level_name = ''Tiburon de Wall Street''\<rparr>,
      \<lparr>level_points = 1500, level_name = ''Magnate Financiero''\<rparr>,
      \<lparr>level_points = 2100, level_name = ''Visionario Global''\<rparr>,
      \<lparr>level_points = 2800, level_name = ''Leyenda Viva''\<rparr>,
      \<lparr>level_points = 3600, level_name = ''Oraculo Financiero''\<rparr>,
      \<lparr>level_points = 4500, level_name = ''Emperador del Capital''\<rparr>]"

subsection \<open>Results\<close>

datatype streak_message =
    StreakStarted              \<comment> \<open>Comienza tu racha financiera!\<close>
  | StreakOf int int           \<comment> \<open>Racha de n dias! +b puntos\<close>
  | StreakMaintained           \<comment> \<open>Racha mantenida - ya activo hoy\<close>
  | StreakBroken int           \<comment> \<open>Racha rota despues de n dias de inactividad\<close>
  | StartFailed                \<comment> \<open>Error iniciando racha\<close>
  | UpdateFailed               \<comment> \<open>Error actualizando racha\<close>

record streak_result =
  streak_updated :: bool
  streak_current :: int
  streak_message :: streak_message

record points_result =
  base_points :: int
  bonuses :: int
  points_total :: int

record milestone_result =
  achieved :: bool
  milestone_days :: "int option"
  milestone_message :: string
  points_earned :: int

record level_result =
  level_up :: bool
  current_level :: nat
  previous_level :: nat
  level_result_info :: level_info

datatype error_message =
    InvalidAction string       \<comment> \<open>Accion no valida: ...\<close>
  | ProcessingError            \<comment> \<open>Error procesando engagement\<close>

record engagement =
  action :: string
  streak :: streak_result
  points_earned_total :: int
  points_base :: int
  points_bonuses :: int
  points_now :: int
  milestone :: milestone_result
  level :: level_result

datatype engagement_result = ErrorResponse error_message | Success engagement

subsection \<open>The streak\<close>

text \<open>
  \<^verbatim>\<open>_parse_date\<close>: any exception of \<^verbatim>\<open>strptime\<close> is caught and today's date is
  returned in its place.
\<close>

definition parse_date :: "date \<Rightarrow> string \<Rightarrow> date" where
  "parse_date today date_str = (case strptime_ymd date_str of Some d \<Rightarrow> d | None \<Rightarrow> today)"

definition start_new_streak :: "faults \<Rightarrow> date \<Rightarrow> database \<Rightarrow> database \<times> streak_result" where
  "start_new_streak F today db =
     (case update_user_stats F StreakWrite 1 1 10 1 (Some (isoformat today)) db of
        Inr db' \<Rightarrow>
          (db', \<lparr>streak_updated = True, streak_current = 1, streak_message = StreakStarted\<rparr>)
      | Inl e \<Rightarrow>
          (db, \<lparr>streak_updated = False, streak_current = 0, streak_message = StartFailed\<rparr>))"

definition increment_streak ::
  "faults \<Rightarrow> user_stats \<Rightarrow> date \<Rightarrow> database \<Rightarrow> database \<times> streak_result" where
  "increment_streak F stats today db =
     (let new_streak = current_streak stats + 1;
          longest = max (longest_streak stats) new_streak;
          streak_bonus = 10 + min new_streak 7 * 2
      in case update_user_stats F StreakWrite new_streak longest
                (total_points stats + streak_bonus) (total_streak_days stats + 1)
                (Some (isoformat today)) db of
           Inr db' \<Rightarrow>
             (db', \<lparr>streak_updated = True, streak_current = new_streak,
                    streak_message = StreakOf new_streak streak_bonus\<rparr>)
         | Inl e \<Rightarrow>
             (db, \<lparr>streak_updated = False, streak_current = current_streak stats,
                   streak_message = UpdateFailed\<rparr>))"

definition maintain_streak :: "user_stats \<Rightarrow> streak_result" where
  "maintain_streak stats =
     \<lparr>streak_updated = False, streak_current = current_streak stats,
      streak_message = StreakMaintained\<rparr>"

definition handle_streak_break ::
  "faults \<Rightarrow> user_stats \<Rightarrow> date \<Rightarrow> int \<Rightarrow> database \<Rightarrow> database \<times> streak_result" where
  "handle_streak_break F stats today days_since_last db =
     (case update_user_stats F StreakWrite 0 (longest_streak stats) (total_points stats)
             (total_streak_days stats) (Some (isoformat today)) db of
        Inr db' \<Rightarrow>
          (db', \<lparr>streak_updated = True, streak_current = 0,
                 streak_message = StreakBroken days_since_last\<rparr>)
      | Inl e \<Rightarrow>
          (db, \<lparr>streak_updated = False, streak_current = 0, streak_message = UpdateFailed\<rparr>))"

text \<open>
  \<^verbatim>\<open>_process_streak_update\<close>. The read of the row is not inside a \<^verbatim>\<open>try\<close>: its
  failure leaves the function as an exception (\<open>Inl\<close>). \<^verbatim>\<open>not s\<close> holds of NULL and of
  the empty string.
\<close>

definition process_streak_update ::
  "faults \<Rightarrow> date \<Rightarrow> database \<Rightarrow> db_error + database \<times> streak_result" where
  "process_streak_update F today db =
     (case get_user_stats F StreakRead db of
        Inl e \<Rightarrow> Inl e
      | Inr None \<Rightarrow> Inr (start_new_streak F today db)
      | Inr (Some stats) \<Rightarrow>
          (case last_activity_date stats of
             None \<Rightarrow> Inr (start_new_streak F today db)
           | Some date_str \<Rightarrow>
               if date_str = [] then Inr (start_new_streak F today db)
               else
                 let last_active = parse_date today date_str;
                     days_since_last = days_between today last_active
                 in if days_since_last = 0 then Inr (db, maintain_streak stats)
                    else if days_since_last = 1 then Inr (increment_streak F stats today db)
                    else Inr (handle_streak_break F stats today days_since_last db)))"

subsection \<open>Points\<close>

text \<open>
  \<^verbatim>\<open>_add_points\<close> catches every exception of its read and of its write, and writes
  only when the row exists. Its two accesses are named by the caller.
\<close>

definition add_points :: "faults \<Rightarrow> db_call \<Rightarrow> db_call \<Rightarrow> int \<Rightarrow> database \<Rightarrow> database" where
  "add_points F kr kw pts db =
     (case get_user_stats F kr db of
        Inl e \<Rightarrow> db
      | Inr None \<Rightarrow> db
      | Inr (Some stats) \<Rightarrow>
          (case update_user_stats F kw (current_streak stats) (longest_streak stats)
                  (total_points stats + pts) (total_streak_days stats)
                  (last_activity_date stats) db of
             Inr db' \<Rightarrow> db'
           | Inl e \<Rightarrow> db))"

text \<open>
  The metadata is an optional dictionary; a pair \<open>(k, b)\<close> says that the value under
  \<open>k\<close> is truthy (\<open>b\<close>) or falsy. \<^verbatim>\<open>if metadata:\<close> holds of a dictionary that is
  there and not empty. The weekday is the one of the day of the call.
\<close>

type_synonym metadata = "(string \<times> bool) list option"

definition truthy_flag :: "(string \<times> bool) list \<Rightarrow> string \<Rightarrow> bool" where
  "truthy_flag m k = (case map_of m k of Some b \<Rightarrow> b | None \<Rightarrow> False)"

definition calculate_bonuses :: "date \<Rightarrow> metadata \<Rightarrow> int" where
  "calculate_bonuses today md =
     (case md of
        None \<Rightarrow> 0
      | Some m \<Rightarrow>
          if m = [] then 0
          else (if truthy_flag m ''first_time'' then 10 else 0)
             + (if truthy_flag m ''consistent_week'' then 20 else 0)
             + (if weekday today \<ge> 5 then 5 else 0))"

definition base_points_of :: "string \<Rightarrow> int" where
  "base_points_of action_type =
     (case map_of POINTS_CONFIG action_type of Some p \<Rightarrow> p | None \<Rightarrow> 5)"

definition calculate_points ::
  "faults \<Rightarrow> date \<Rightarrow> string \<Rightarrow> metadata \<Rightarrow> database \<Rightarrow> database \<times> points_result" where
  "calculate_points F today action_type md db =
     (let base = base_points_of action_type;
          bonus = calculate_bonuses today md;
          total = base + bonus
      in (add_points F PointsRead PointsWrite total db,
          \<lparr>base_points = base, bonuses = bonus, points_total = total\<rparr>))"

subsection \<open>Milestones\<close>

definition no_milestone :: milestone_result where
  "no_milestone =
     \<lparr>achieved = False, milestone_days = None, milestone_message = [], points_earned = 0\<rparr>"

text \<open>
  The loop of \<^verbatim>\<open>_check_milestones\<close> over the items of the dictionary, left at the
  first match. A failure to record the milestone is logged and nothing else; with that
  and with \<^verbatim>\<open>_add_points\<close> catching its own, no exception reaches the outer handler
  of the function.
\<close>

fun check_milestones_loop ::
  "faults \<Rightarrow> int \<Rightarrow> (int \<times> int \<times> string) list \<Rightarrow> database \<Rightarrow> database \<times> milestone_result" where
  "check_milestones_loop F cs [] db = (db, no_milestone)"
| "check_milestones_loop F cs ((days, pts, msg) # rest) db =
     (if cs = days then
        let db1 = add_points F MilestoneRead MilestoneWrite pts db;
            db2 = (case add_streak_milestone F days db1 of Inr d \<Rightarrow> d | Inl e \<Rightarrow> db1)
        in (db2, \<lparr>achieved = True, milestone_days = Some days, milestone_message = msg,
                  points_earned = pts\<rparr>)
      else check_milestones_loop F cs rest db)"

definition check_milestones :: "faults \<Rightarrow> int \<Rightarrow> database \<Rightarrow> database \<times> milestone_result" where
  "check_milestones F cs db = check_milestones_loop F cs STREAK_MILESTONES db"

subsection \<open>Levels\<close>

text \<open>
  The loop of \<^verbatim>\<open>_calculate_level\<close> over \<^verbatim>\<open>enumerate(self.LEVELS)\<close>: the tiers still
  to visit, the index of the first of them, and the level found so far.
\<close>

fun calculate_level_loop :: "int \<Rightarrow> level_info list \<Rightarrow> nat \<Rightarrow> nat \<Rightarrow> nat" where
  "calculate_level_loop pts [] i lvl = lvl"
| "calculate_level_loop pts (info # rest) i lvl =
     (if pts \<ge> level_points info then calculate_level_loop pts rest (i + 1) i else lvl)"

definition calculate_level :: "int \<Rightarrow> nat" where
  "calculate_level pts = calculate_level_loop pts LEVELS 0 0"

definition get_previous_level :: "int \<Rightarrow> nat" where
  "get_previous_level current_points = calculate_level (max 0 (current_points - 10))"

definition get_current_points :: "faults \<Rightarrow> db_call \<Rightarrow> database \<Rightarrow> int" where
  "get_current_points F k db =
     (case get_user_stats F k db of
        Inl e \<Rightarrow> 0
      | Inr None \<Rightarrow> 0
      | Inr (Some stats) \<Rightarrow> total_points stats)"

definition get_level_info :: "nat \<Rightarrow> level_info" where
  "get_level_info lvl = (if lvl < length LEVELS then LEVELS ! lvl else LEVELS ! 0)"

definition check_level_progression :: "faults \<Rightarrow> database \<Rightarrow> level_result" where
  "check_level_progression F db =
     (let current_points = get_current_points F LevelRead db;
          cur = calculate_level current_points;
          prev = get_previous_level current_points
      in \<lparr>level_up = (cur > prev), current_level = cur, previous_level = prev,
          level_result_info = get_level_info cur\<rparr>)"

subsection \<open>record_engagement\<close>

definition is_valid_action :: "string \<Rightarrow> bool" where
  "is_valid_action action_type =
     (action_type \<in> set (map fst POINTS_CONFIG) \<or> take 7 action_type = ''custom_'')"

definition consolidate_results ::
  "faults \<Rightarrow> string \<Rightarrow> streak_result \<Rightarrow> points_result \<Rightarrow> milestone_result \<Rightarrow> level_result
     \<Rightarrow> database \<Rightarrow> engagement" where
  "consolidate_results F action_type sr pr mr lr db =
     \<lparr>action = action_type, streak = sr,
      points_earned_total = points_total pr, points_base = base_points pr,
      points_bonuses = bonuses pr, points_now = get_current_points F TotalRead db,
      milestone = mr, level = lr\<rparr>"

text \<open>
  \<^verbatim>\<open>record_engagement\<close>: the whole body is inside one \<^verbatim>\<open>try\<close>, whose handler returns
  the error response. The exceptions that reach it are those of the ledger write and of
  the read in \<^verbatim>\<open>_process_streak_update\<close>; every later step catches its own. The clock
  is read once per call (\<open>today\<close>); the time stamp of the response is left out.
\<close>

definition record_engagement ::
  "faults \<Rightarrow> date \<Rightarrow> string \<Rightarrow> metadata \<Rightarrow> database \<Rightarrow> database \<times> engagement_result" where
  "record_engagement F today action_type md db =
     (if \<not> is_valid_action action_type then (db, ErrorResponse (InvalidAction action_type))
      else case record_daily_engagement F today action_type db of
        Inl e \<Rightarrow> (db, ErrorResponse ProcessingError)
      | Inr db1 \<Rightarrow>
          (case process_streak_update F today db1 of
             Inl e \<Rightarrow> (db1, ErrorResponse ProcessingError)
           | Inr (db2, sr) \<Rightarrow>
               let (db3, pr) = calculate_points F today action_type md db2;
                   (db4, mr) = check_milestones F (streak_current sr) db3;
                   lr = check_level_progression F db4
               in (db4, Success (consolidate_results F action_type sr pr mr lr db4))))"

subsection \<open>get_user_progress\<close>

text \<open>
  The percentage is a float in the source. Here the quotient is the exact rational and
  \<^verbatim>\<open>round(x, 1)\<close> rounds it to the nearest tenth, a tie to the even one; the last
  digit of a float can differ from it. The projection keeps the level, the points, the
  percentage, the streak and the protections; the \<^verbatim>\<open>engagement\<close> entry, a second
  query with a handler of its own, is left out. Every failure inside the function ends
  in the default progress.
\<close>

record progress =
  progress_level :: nat
  progress_level_info :: level_info
  progress_points :: int
  next_level_points :: int
  progress_percentage :: rat
  progress_streak :: "int \<times> int \<times> int"
  freeze_available :: bool
  recovery_available :: bool

definition round_half_even :: "rat \<Rightarrow> int" where
  "round_half_even x =
     (let f = \<lfloor>x\<rfloor>; r = x - of_int f
      in if r < 1 / 2 then f else if 1 / 2 < r then f + 1 else if even f then f else f + 1)"

definition round1 :: "rat \<Rightarrow> rat" where
  "round1 x = of_int (round_half_even (x * 10)) / 10"

definition get_default_progress :: progress where
  "get_default_progress =
     \<lparr>progress_level = 0, progress_level_info = LEVELS ! 0, progress_points = 0,
      next_level_points = 100, progress_percentage = 0, progress_streak = (0, 0, 0),
      freeze_available = True, recovery_available = True\<rparr>"

definition get_user_progress :: "faults \<Rightarrow> database \<Rightarrow> progress" where
  "get_user_progress F db =
     (case get_user_stats F ProgressRead db of
        Inl e \<Rightarrow> get_default_progress
      | Inr None \<Rightarrow> get_default_progress
      | Inr (Some stats) \<Rightarrow>
          let current_points = total_points stats;
              lvl = calculate_level current_points;
              next_points =
                (if lvl < length LEVELS - 1 then level_points (LEVELS ! (lvl + 1))
                 else level_points (LEVELS ! lvl));
              current_level_points = level_points (LEVELS ! lvl);
              points_in_current_level = current_points - current_level_points;
              points_needed_for_next = next_points - current_level_points;
              pct = (if points_needed_for_next > 0
                     then of_int points_in_current_level / of_int points_needed_for_next * 100
                     else 100)
          in \<lparr>progress_level = lvl, progress_level_info = get_level_info lvl,
              progress_points = current_points, next_level_points = next_points,
              progress_percentage = round1 (max 0 (min 100 pct)),
              progress_streak =
                (current_streak stats, longest_streak stats, total_streak_days stats),
              freeze_available = (\<not> freeze_used_this_week stats),
              recovery_available = (\<not> recovery_used_this_month stats)\<rparr>)"

section \<open>Sequences of calls\<close>

text \<open>
  One call of \<^verbatim>\<open>record_engagement\<close>: the accesses to the store that fail during it,
  the day on which it is made, and its two arguments.
\<close>

record call =
  call_faults :: faults
  call_today :: date
  call_action :: string
  call_metadata :: metadata

definition engage :: "call \<Rightarrow> database \<Rightarrow> database" where
  "engage c db =
     fst (record_engagement (call_faults c) (call_today c) (call_action c) (call_metadata c) db)"

fun run_engagements :: "call list \<Rightarrow> database \<Rightarrow> database" where
  "run_engagements [] db = db"
| "run_engagements (c # cs) db = run_engagements cs (engage c db)"

text \<open>
  The row that \<^verbatim>\<open>_insert_initial_data\<close> inserts for the default user, which is also
  what \<^verbatim>\<open>_create_initial_user_stats\<close> writes.
\<close>

definition initial_user_stats :: user_stats where
  "initial_user_stats =
     \<lparr>current_streak = 0, longest_streak = 0, total_points = 0, total_streak_days = 0,
      last_activity_date = None, freeze_used_this_week = False,
      recovery_used_this_month = False\<rparr>"

definition initial_database :: database where
  "initial_database =
     \<lparr>user_stats_row = Some initial_user_stats, streak_milestones = {},
      daily_engagement = Map.empty\<rparr>"

text \<open>The CHECK constraints of the table: what every stored row satisfies.\<close>

definition stats_ok :: "user_stats \<Rightarrow> bool" where
  "stats_ok s =
     (0 \<le> current_streak s \<and> 0 \<le> longest_streak s \<and> 0 \<le> total_points s \<and>
      0 \<le> total_streak_days s)"

text \<open>Stored states and days for the examples below.\<close>

definition stored :: "user_stats \<Rightarrow> database" where
  "stored s = \<lparr>user_stats_row = Some s, streak_milestones = {}, daily_engagement = Map.empty\<rparr>"

definition row :: "int \<Rightarrow> int \<Rightarrow> int \<Rightarrow> int \<Rightarrow> string option \<Rightarrow> user_stats" where
  "row cs ls tp tsd lad =
     \<lparr>current_streak = cs, longest_streak = ls, total_points = tp, total_streak_days = tsd,
      last_activity_date = lad, freeze_used_this_week = False,
      recovery_used_this_month = False\<rparr>"

definition jan :: "nat \<Rightarrow> date" where
  "jan d = \<lparr>year = 2024, month = 1, day = d\<rparr>"

section \<open>Invariants of the stored row\<close>

text \<open>
  \<open>streak_bounded\<close>: there is a row, it satisfies the CHECK constraints, and its current
  streak is at most its longest. \<open>dated\<close>: the row has a last activity date that is
  not empty. \<open>accounted\<close>: a row without such a date has no points and no streak days.
  \<open>totals_le\<close> compares the two totals of two states of the store.
\<close>

definition streak_bounded :: "database \<Rightarrow> bool" where
  "streak_bounded db =
     (\<exists>s. user_stats_row db = Some s \<and> stats_ok s \<and> current_streak s \<le> longest_streak s)"



definition totals_le :: "database \<Rightarrow> database \<Rightarrow> bool" where
  "totals_le db db' =
     (\<exists>s s'. user_stats_row db = Some s \<and> user_stats_row db' = Some s' \<and>
        total_points s \<le> total_points s' \<and> total_streak_days s \<le> total_streak_days s')"


text \<open>
  The bonuses as the specification words them: each of the three is added on its own
  condition, whatever the others are.
\<close>

definition spec_bonuses :: "date \<Rightarrow> metadata \<Rightarrow> int" where
  "spec_bonuses today md =
     (if (case md of None \<Rightarrow> False | Some m \<Rightarrow> truthy_flag m ''first_time'') then 10 else 0)
   + (if (case md of None \<Rightarrow> False | Some m \<Rightarrow> truthy_flag m ''consistent_week'') then 20 else 0)
   + (if weekday today \<ge> 5 then 5 else 0)"

text \<open>
  \<open>same_streak\<close>: both states have a row, and the two rows agree on the current streak,
  the longest streak, the streak days and the last activity date.
\<close>

definition same_streak :: "database \<Rightarrow> database \<Rightarrow> bool" where
  "same_streak db db' =
     (\<exists>s s'. user_stats_row db = Some s \<and> user_stats_row db' = Some s' \<and>
        current_streak s' = current_streak s \<and> longest_streak s' = longest_streak s \<and>
        total_streak_days s' = total_streak_days s \<and>
        last_activity_date s' = last_activity_date s)"




section \<open>A stored date reads back as itself\<close>

lemma digit_of_digit_char: "digit_of (digit_char n) = Some (n mod 10)"
proof -
  have "n mod 10 < 10" by simp
  then have "n mod 10 = 0 \<or> n mod 10 = 1 \<or> n mod 10 = 2 \<or> n mod 10 = 3 \<or> n mod 10 = 4 \<or> n mod 10 = 5 \<or> n mod 10 = 6 \<or> n mod 10 = 7 \<or> n mod 10 = 8 \<or> n mod 10 = 9"
    by arith
  then show ?thesis
    by (elim disjE) (simp_all add: digit_char_def digit_of_def)
qed

lemma digits_of_year:
  assumes "y \<le> 9999"
  shows "1000 * (y div 1000 mod 10) + 100 * (y div 100 mod 10) + 10 * (y div 10 mod 10)
           + y mod 10 = (y::nat)"
proof -
  have a: "y div 10 div 10 = y div 100" "y div 100 div 10 = y div 1000"
    using div_mult2_eq [of y 10 10] div_mult2_eq [of y 100 10] by simp_all
  have 1: "y = 10 * (y div 10) + y mod 10" by simp
  have 2: "y div 10 = 10 * (y div 100) + y div 10 mod 10"
    using div_mult_mod_eq [of "y div 10" 10] a by simp
  have 3: "y div 100 = 10 * (y div 1000) + y div 100 mod 10"
    using div_mult_mod_eq [of "y div 100" 10] a by simp
  have 4: "y div 1000 mod 10 = y div 1000"
    using assms by simp
  show ?thesis using 1 2 3 4 by linarith
qed

lemma match_year_isoformat:
  "y \<le> 9999 \<Longrightarrow>
   match_year (digit_char (y div 1000) # digit_char (y div 100) # digit_char (y div 10)
                # digit_char y # rest) = Some (y, rest)"
  using digits_of_year [of y]
  by (simp add: match_year_def digit_of_digit_char)

lemma match_month_isoformat:
  assumes "1 \<le> m" and "m \<le> 12"
  shows "match_month (digit_char (m div 10) # digit_char m # rest) = Some (m, rest)"
proof -
  have "m = 1 \<or> m = 2 \<or> m = 3 \<or> m = 4 \<or> m = 5 \<or> m = 6 \<or> m = 7 \<or> m = 8 \<or> m = 9 \<or> m = 10 \<or> m = 11 \<or> m = 12"
    using assms by arith
  then show ?thesis
    by (elim disjE) (simp_all add: match_month_def digit_of_digit_char)
qed

lemma match_day_isoformat:
  assumes "1 \<le> d" and "d \<le> 31"
  shows "match_day [digit_char (d div 10), digit_char d] = Some (d, [])"
proof -
  have "d = 1 \<or> d = 2 \<or> d = 3 \<or> d = 4 \<or> d = 5 \<or> d = 6 \<or> d = 7 \<or> d = 8 \<or> d = 9 \<or> d = 10 \<or> d = 11 \<or> d = 12 \<or> d = 13 \<or> d = 14 \<or> d = 15 \<or> d = 16 \<or> d = 17 \<or> d = 18 \<or> d = 19 \<or> d = 20 \<or> d = 21 \<or> d = 22 \<or> d = 23 \<or> d = 24 \<or> d = 25 \<or> d = 26 \<or> d = 27 \<or> d = 28 \<or> d = 29 \<or> d = 30 \<or> d = 31"
    using assms by arith
  then show ?thesis
    by (elim disjE) (simp_all add: match_day_def digit_of_digit_char)
qed

lemma days_in_month_le: "days_in_month y m \<le> 31"
  by (simp add: days_in_month_def)

lemma strptime_isoformat:
  assumes "valid_date d"
  shows "strptime_ymd (isoformat d) = Some d"
proof -
  obtain y m dd where d: "d = \<lparr>year = y, month = m, day = dd\<rparr>"
    by (cases d) simp
  have y: "y \<le> 9999" and m: "1 \<le> m" "m \<le> 12" and dd: "1 \<le> dd" "dd \<le> 31"
    using assms days_in_month_le [of y m] by (auto simp: valid_date_def d)
  show ?thesis
    using assms
    by (simp add: d strptime_ymd_def isoformat_def match_year_isoformat [OF y]
        match_hyphen_def match_month_isoformat [OF m] match_day_isoformat [OF dd])
qed

lemma parse_date_isoformat: "valid_date d \<Longrightarrow> parse_date today (isoformat d) = d"
  by (simp add: parse_date_def strptime_isoformat)

lemma isoformat_nonempty: "isoformat d \<noteq> []"
  by (simp add: isoformat_def)


section \<open>The level of a point total\<close>

lemma level_cases:
  "0 \<le> p \<Longrightarrow> calculate_level p =
     (if p < 100 then 0 else if p < 300 then 1 else if p < 600 then 2 else if p < 1000 then 3
      else if p < 1500 then 4 else if p < 2100 then 5 else if p < 2800 then 6
      else if p < 3600 then 7 else if p < 4500 then 8 else 9)"
  by (simp add: calculate_level_def LEVELS_def)

lemma level_lt: "calculate_level p < length LEVELS"
  by (simp add: calculate_level_def LEVELS_def)

lemma level_threshold:
  "0 \<le> p \<Longrightarrow> level_points (LEVELS ! calculate_level p) \<le> p \<and>
     (calculate_level p = length LEVELS - 1 \<or>
      p < level_points (LEVELS ! (calculate_level p + 1)))"
  by (simp add: level_cases) (simp add: LEVELS_def)

lemma round_half_even_bounds:
  assumes "0 \<le> x" and "x \<le> of_int n"
  shows "0 \<le> round_half_even x \<and> round_half_even x \<le> n"
proof -
  have f0: "0 \<le> \<lfloor>x\<rfloor>" using assms(1) by simp
  have fn: "\<lfloor>x\<rfloor> \<le> n" using assms(2) by (simp add: floor_le_iff)
  have "\<lfloor>x\<rfloor> = n \<Longrightarrow> x - of_int \<lfloor>x\<rfloor> \<le> 0" using assms(2) by simp
  then have top: "x - of_int \<lfloor>x\<rfloor> \<ge> 1 / 2 \<Longrightarrow> \<lfloor>x\<rfloor> < n" using fn by fastforce
  show ?thesis
    unfolding round_half_even_def Let_def using f0 fn top by auto
qed

lemma round_half_even_of_int: "round_half_even (of_int n) = n"
  by (simp add: round_half_even_def)

lemma round1_bounds: "0 \<le> x \<Longrightarrow> x \<le> 100 \<Longrightarrow> 0 \<le> round1 x \<and> round1 x \<le> 100"
  using round_half_even_bounds [of "x * 10" 1000]
  by (simp add: round1_def)

lemma round1_100: "round1 100 = 100"
  using round_half_even_of_int [of 1000] by (simp add: round1_def)

lemma percentage_bounds:
  "0 \<le> progress_percentage (get_user_progress F db) \<and>
   progress_percentage (get_user_progress F db) \<le> 100"
  by (auto simp: get_user_progress_def get_default_progress_def get_user_stats_def Let_def
        split: sum.splits option.splits
        intro!: round1_bounds [THEN conjunct1] round1_bounds [THEN conjunct2])

subsection \<open>The days of January 2024\<close>

lemma toordinal_jan: "toordinal (jan d) = 738885 + int d"
  by (simp add: toordinal_def jan_def days_before_year_def days_before_month_def)

lemma days_between_jan: "days_between (jan a) (jan b) = int a - int b"
  by (simp add: days_between_def toordinal_jan)

lemma valid_jan: "1 \<le> d \<Longrightarrow> d \<le> 31 \<Longrightarrow> valid_date (jan d)"
  by (simp add: valid_date_def jan_def days_in_month_def)

lemma isoformat_jan:
  "isoformat (jan 2) = ''2024-01-02''" "isoformat (jan 3) = ''2024-01-03''"
  "isoformat (jan 6) = ''2024-01-06''" "isoformat (jan 10) = ''2024-01-10''"
  by (simp_all add: isoformat_def jan_def digit_char_def)

lemma parse_jan:
  "parse_date today ''2024-01-02'' = jan 2" "parse_date today ''2024-01-03'' = jan 3"
  "parse_date today ''2024-01-06'' = jan 6" "parse_date today ''2024-01-10'' = jan 10"
proof -
  have "parse_date today (isoformat (jan d)) = jan d" if "1 \<le> d" "d \<le> 31" for d
    using that by (intro parse_date_isoformat valid_jan)
  from this [of 2] this [of 3] this [of 6] this [of 10]
  show "parse_date today ''2024-01-02'' = jan 2" "parse_date today ''2024-01-03'' = jan 3"
    "parse_date today ''2024-01-06'' = jan 6" "parse_date today ''2024-01-10'' = jan 10"
    by (simp_all only: isoformat_jan)
qed

lemma weekday_jan: "weekday (jan 6) = 5" "weekday (jan 3) = 2"
  by (simp_all add: weekday_def toordinal_jan)


section \<open>What one access to the store can do\<close>

lemma update_user_stats_cases:
  assumes "update_user_stats F k cs ls tp tsd lad db = Inr db'"
  shows "(user_stats_row db = None \<and> db' = db) \<or>
         (user_stats_row db \<noteq> None \<and> 0 \<le> cs \<and> 0 \<le> ls \<and> 0 \<le> tp \<and> 0 \<le> tsd \<and>
          db' = db\<lparr>user_stats_row := Some (row cs ls tp tsd lad)\<rparr>)"
  using assms by (auto simp: update_user_stats_def row_def split: if_splits option.splits)

lemma update_user_stats_ok:
  "k \<notin> F \<Longrightarrow> user_stats_row db = Some s \<Longrightarrow> 0 \<le> cs \<Longrightarrow> 0 \<le> ls \<Longrightarrow> 0 \<le> tp \<Longrightarrow> 0 \<le> tsd \<Longrightarrow>
   update_user_stats F k cs ls tp tsd lad db =
     Inr (db\<lparr>user_stats_row := Some (row cs ls tp tsd lad)\<rparr>)"
  by (simp add: update_user_stats_def row_def)

lemma add_points_cases:
  "add_points F kr kw p db = db \<or>
   (\<exists>s. user_stats_row db = Some s \<and> 0 \<le> current_streak s \<and> 0 \<le> longest_streak s \<and>
        0 \<le> total_points s + p \<and> 0 \<le> total_streak_days s \<and>
        add_points F kr kw p db =
          db\<lparr>user_stats_row := Some (row (current_streak s) (longest_streak s)
                 (total_points s + p) (total_streak_days s) (last_activity_date s))\<rparr>)"
  by (auto simp: add_points_def get_user_stats_def split: sum.splits option.splits
      dest!: update_user_stats_cases)

lemma streak_bounded_add_points:
  "streak_bounded db \<Longrightarrow> streak_bounded (add_points F kr kw p db)"
  using add_points_cases [of F kr kw p db]
  by (auto simp: streak_bounded_def stats_ok_def row_def)

lemma streak_bounded_start:
  "streak_bounded db \<Longrightarrow> streak_bounded (fst (start_new_streak F today db))"
  by (auto simp: start_new_streak_def streak_bounded_def stats_ok_def row_def
      split: sum.splits dest!: update_user_stats_cases)

lemma streak_bounded_increment:
  "streak_bounded db \<Longrightarrow> streak_bounded (fst (increment_streak F stats today db))"
  by (auto simp: increment_streak_def Let_def streak_bounded_def stats_ok_def row_def
      split: sum.splits dest!: update_user_stats_cases)

lemma streak_bounded_break:
  "streak_bounded db \<Longrightarrow> streak_bounded (fst (handle_streak_break F stats today n db))"
  by (auto simp: handle_streak_break_def streak_bounded_def stats_ok_def row_def
      split: sum.splits dest!: update_user_stats_cases)

lemma streak_bounded_process:
  "streak_bounded db \<Longrightarrow> process_streak_update F today db = Inr (db', r) \<Longrightarrow> streak_bounded db'"
  using streak_bounded_start [of db F today] streak_bounded_increment [of db F _ today]
    streak_bounded_break [of db F _ today]
  by (auto simp: process_streak_update_def get_user_stats_def Let_def
      split: sum.splits option.splits if_splits) (metis fst_conv)+


lemma streak_bounded_milestone_insert:
  "streak_bounded db \<Longrightarrow>
   streak_bounded (case add_streak_milestone F days db of Inr d \<Rightarrow> d | Inl e \<Rightarrow> db)"
  by (simp add: add_streak_milestone_def streak_bounded_def)

lemma streak_bounded_milestones_loop:
  "streak_bounded db \<Longrightarrow> streak_bounded (fst (check_milestones_loop F cs ms db))"
proof (induction ms)
  case Nil
  then show ?case by simp
next
  case (Cons m ms)
  obtain days pts msg where m: "m = (days, pts, msg)" by (cases m) auto
  show ?case
    using Cons streak_bounded_milestone_insert [OF streak_bounded_add_points [OF Cons.prems]]
    by (simp add: m Let_def)
qed

lemma ledger_keeps_row:
  "record_daily_engagement F today a db = Inr db1 \<Longrightarrow> user_stats_row db1 = user_stats_row db"
  by (auto simp: record_daily_engagement_def split: if_splits)

lemma record_engagement_database:
  "fst (record_engagement F today a md db) =
     (if \<not> is_valid_action a then db
      else case record_daily_engagement F today a db of
        Inl e \<Rightarrow> db
      | Inr db1 \<Rightarrow>
          (case process_streak_update F today db1 of
             Inl e \<Rightarrow> db1
           | Inr (db2, sr) \<Rightarrow>
               fst (check_milestones F (streak_current sr)
                     (fst (calculate_points F today a md db2)))))"
  by (simp add: record_engagement_def Let_def case_prod_beta split: sum.splits)

lemma streak_bounded_record:
  assumes "streak_bounded db"
  shows "streak_bounded (fst (record_engagement F today a md db))"
proof (cases "is_valid_action a")
  case False
  then show ?thesis using assms by (simp add: record_engagement_database)
next
  case True
  show ?thesis
  proof (cases "record_daily_engagement F today a db")
    case (Inl e)
    then show ?thesis using assms True by (simp add: record_engagement_database)
  next
    case (Inr db1)
    then have b1: "streak_bounded db1"
      using assms ledger_keeps_row [OF Inr] by (simp add: streak_bounded_def)
    show ?thesis
    proof (cases "process_streak_update F today db1")
      case (Inl e)
      then show ?thesis using b1 True Inr by (simp add: record_engagement_database)
    next
      case r: (Inr p)
      obtain db2 sr where p: "p = (db2, sr)" by (cases p)
      have b2: "streak_bounded db2"
        using streak_bounded_process [OF b1] r p by simp
      have b3: "streak_bounded (fst (calculate_points F today a md db2))"
        using streak_bounded_add_points [OF b2] by (simp add: calculate_points_def Let_def)
      have "streak_bounded
              (fst (check_milestones F (streak_current sr) (fst (calculate_points F today a md db2))))"
        using streak_bounded_milestones_loop [OF b3] by (simp add: check_milestones_def)
      then show ?thesis
        using True Inr r p by (simp add: record_engagement_database)
    qed
  qed
qed

lemma streak_bounded_run:
  "streak_bounded db \<Longrightarrow> streak_bounded (run_engagements cs db)"
  by (induction cs arbitrary: db) (simp_all add: engage_def streak_bounded_record)

lemma streak_bounded_initial: "streak_bounded initial_database"
  by (simp add: streak_bounded_def initial_database_def initial_user_stats_def stats_ok_def)


text \<open>
  C3. In every state that a sequence of calls reaches from the initial state, whatever
  accesses to the store fail on the way, the row is there and its current streak is at
  most its longest streak.
\<close>

theorem current_streak_le_longest_streak:
  "\<exists>s. user_stats_row (run_engagements cs initial_database) = Some s \<and>
       current_streak s \<le> longest_streak s"
  using streak_bounded_run [OF streak_bounded_initial, of cs]
  by (auto simp: streak_bounded_def)


section \<open>The transitions of the streak\<close>

lemma stored_row: "user_stats_row (stored s) = Some s"
  by (simp add: stored_def)

lemma stored_update: "(stored s)\<lparr>user_stats_row := Some s'\<rparr> = stored s'"
  by (simp add: stored_def)

lemma row_fields:
  "current_streak (row cs ls tp tsd lad) = cs" "longest_streak (row cs ls tp tsd lad) = ls"
  "total_points (row cs ls tp tsd lad) = tp" "total_streak_days (row cs ls tp tsd lad) = tsd"
  "last_activity_date (row cs ls tp tsd lad) = lad"
  by (simp_all add: row_def)

lemma stats_ok_row: "stats_ok (row cs ls tp tsd lad) = (0 \<le> cs \<and> 0 \<le> ls \<and> 0 \<le> tp \<and> 0 \<le> tsd)"
  by (simp add: stats_ok_def row_def)





section \<open>A stored date that does not parse\<close>




section \<open>The points of an action\<close>

lemma custom_not_configured:
  assumes "take 7 a = ''custom_''"
  shows "map_of POINTS_CONFIG a = None"
proof -
  have "a ! 1 = take 7 a ! 1" by simp
  also have "\<dots> = CHR ''u''" by (simp add: assms)
  finally have n: "a ! 1 = CHR ''u''" .
  have "a \<noteq> ''transaction_added''" "a \<noteq> ''dashboard_viewed''" "a \<noteq> ''goal_checked''"
    "a \<noteq> ''weekly_review_completed''" "a \<noteq> ''category_analysis_viewed''"
    using n by auto
  then show ?thesis by (simp add: POINTS_CONFIG_def)
qed

lemma base_points_custom: "take 7 a = ''custom_'' \<Longrightarrow> base_points_of a = 5"
  by (simp add: base_points_of_def custom_not_configured)


lemma base_points_configured: "(a, p) \<in> set POINTS_CONFIG \<Longrightarrow> base_points_of a = p"
  by (auto simp: base_points_of_def POINTS_CONFIG_def)

lemma calculate_bonuses_nonneg: "0 \<le> calculate_bonuses today md"
  by (simp add: calculate_bonuses_def split: option.splits)

lemma base_points_nonneg: "0 \<le> base_points_of a"
  by (simp add: base_points_of_def POINTS_CONFIG_def)

lemma add_points_ok:
  "kr \<notin> F \<Longrightarrow> kw \<notin> F \<Longrightarrow> user_stats_row db = Some s \<Longrightarrow> stats_ok s \<Longrightarrow> 0 \<le> p \<Longrightarrow>
   add_points F kr kw p db =
     db\<lparr>user_stats_row := Some (row (current_streak s) (longest_streak s) (total_points s + p)
            (total_streak_days s) (last_activity_date s))\<rparr>"
  by (simp add: add_points_def get_user_stats_def update_user_stats_ok stats_ok_def)

text \<open>
  C8, as the code has it. The base points of an action in the configuration table are
  its table entry, and those of a \<open>custom_\<close> tag are 5. When a metadata dictionary is
  supplied and not empty, the bonus is 10 for a truthy \<open>first_time\<close>, plus 20 for a
  truthy \<open>consistent_week\<close>, plus 5 on a Saturday or Sunday; without metadata, or with
  an empty dictionary, the bonus is 0 on every day. The total is base plus bonus, and on
  a stored row that is read and written without failure it is added to the points.
\<close>

theorem action_points:
  assumes "user_stats_row db = Some s" and "stats_ok s"
    and "PointsRead \<notin> F" and "PointsWrite \<notin> F"
  shows "let pr = snd (calculate_points F today a md db);
             supplied = (case md of None \<Rightarrow> False | Some m \<Rightarrow> m \<noteq> []);
             flag = (\<lambda>k. case md of None \<Rightarrow> False | Some m \<Rightarrow> truthy_flag m k)
         in (\<forall>p. (a, p) \<in> set POINTS_CONFIG \<longrightarrow> base_points pr = p) \<and>
            (take 7 a = ''custom_'' \<longrightarrow> base_points pr = 5) \<and>
            bonuses pr =
              (if supplied
               then (if flag ''first_time'' then 10 else 0)
                  + (if flag ''consistent_week'' then 20 else 0)
                  + (if weekday today \<ge> 5 then 5 else 0)
               else 0) \<and>
            points_total pr = base_points pr + bonuses pr \<and>
            fst (calculate_points F today a md db) =
              db\<lparr>user_stats_row := Some (row (current_streak s) (longest_streak s)
                     (total_points s + points_total pr) (total_streak_days s)
                     (last_activity_date s))\<rparr>"
proof -
  have nn: "0 \<le> base_points_of a + calculate_bonuses today md"
    using base_points_nonneg [of a] calculate_bonuses_nonneg [of today md] by simp
  have b: "calculate_bonuses today md =
             (if (case md of None \<Rightarrow> False | Some m \<Rightarrow> m \<noteq> [])
              then (if (case md of None \<Rightarrow> False | Some m \<Rightarrow> truthy_flag m ''first_time'') then 10 else 0)
                 + (if (case md of None \<Rightarrow> False | Some m \<Rightarrow> truthy_flag m ''consistent_week'') then 20 else 0)
                 + (if weekday today \<ge> 5 then 5 else 0)
              else 0)"
    by (simp add: calculate_bonuses_def split: option.splits)
  show ?thesis
    unfolding Let_def calculate_points_def
    using add_points_ok [OF assms(3,4,1,2) nn] b
    by (simp add: base_points_configured base_points_custom)
qed

text \<open>
  A configured action with the first-time flag on a Saturday, and a custom tag on a
  Wednesday.
\<close>

theorem action_points_witness:
  "base_points (snd (calculate_points {} (jan 6) ''goal_checked''
      (Some [(''first_time'', True)]) (stored (row 1 1 20 1 (Some ''2024-01-06''))))) = 3 \<and>
   bonuses (snd (calculate_points {} (jan 6) ''goal_checked''
      (Some [(''first_time'', True)]) (stored (row 1 1 20 1 (Some ''2024-01-06''))))) = 15 \<and>
   fst (calculate_points {} (jan 6) ''goal_checked''
      (Some [(''first_time'', True)]) (stored (row 1 1 20 1 (Some ''2024-01-06'')))) =
     stored (row 1 1 38 1 (Some ''2024-01-06'')) \<and>
   base_points (snd (calculate_points {} (jan 3) ''custom_note'' None
      (stored (row 1 1 20 1 (Some ''2024-01-03''))))) = 5"
proof -
  have f: "PointsRead \<notin> {}" "PointsWrite \<notin> {}" by simp_all
  have ok: "stats_ok (row 1 1 20 1 lad)" for lad by (simp add: stats_ok_row)
  have c: "(''goal_checked'', 3) \<in> set POINTS_CONFIG" "take 7 ''custom_note'' = ''custom_''"
    by (simp_all add: POINTS_CONFIG_def)
  from action_points [OF stored_row ok f, where today = "jan 6" and a = "''goal_checked''"
      and md = "Some [(''first_time'', True)]"]
    action_points [OF stored_row ok f, where today = "jan 3" and a = "''custom_note''"
      and md = None] c
  show ?thesis
    by (simp add: Let_def truthy_flag_def weekday_jan row_fields stored_update)
qed

text \<open>
  On Saturday 6 January 2024, without metadata or with an empty dictionary, the code
  gives no bonus, where independent bonuses would give the 5 of the weekend.
\<close>

theorem weekend_bonus_counterexample:
  "5 \<le> weekday (jan 6) \<and> calculate_bonuses (jan 6) None = 0 \<and> spec_bonuses (jan 6) None = 5 \<and>
   calculate_bonuses (jan 6) (Some []) = 0 \<and> spec_bonuses (jan 6) (Some []) = 5"
  by (simp add: calculate_bonuses_def spec_bonuses_def weekday_jan truthy_flag_def)


section \<open>The level-up signal\<close>

lemma base_points_table:
  "base_points_of ''transaction_added'' = 10" "base_points_of ''dashboard_viewed'' = 5"
  "base_points_of ''goal_checked'' = 3" "base_points_of ''weekly_review_completed'' = 25"
  "base_points_of ''category_analysis_viewed'' = 15"
  by (simp_all add: base_points_of_def POINTS_CONFIG_def)

lemma valid_actions:
  "is_valid_action ''weekly_review_completed''" "is_valid_action ''goal_checked''"
  "is_valid_action ''transaction_added''"
  by (simp_all add: is_valid_action_def POINTS_CONFIG_def)

text \<open>
  C9 at a failing input. The row holds 95 points and today's date; the call awards the
  25 points of \<open>weekly_review_completed\<close>. The total becomes 120, the level goes from
  \<open>calculate_level 95 = 0\<close> to \<open>calculate_level 120 = 1\<close>, and the result says that
  there was no level-up: the previous level is computed from \<open>120 - 10\<close>, not from
  \<open>120 - 25\<close>. In the other direction, at 103 points the signal is raised whenever
  it is computed, also after an award of 3 points that left the level at 1.
\<close>

theorem level_up_reads_ten_points_back:
  "user_stats_row (fst (record_engagement {} (jan 6) ''weekly_review_completed'' None
      (stored (row 1 1 95 1 (Some ''2024-01-06''))))) =
     Some (row 1 1 120 1 (Some ''2024-01-06'')) \<and>
   snd (record_engagement {} (jan 6) ''weekly_review_completed'' None
      (stored (row 1 1 95 1 (Some ''2024-01-06'')))) =
     Success \<lparr>action = ''weekly_review_completed'',
       streak = \<lparr>streak_updated = False, streak_current = 1,
                 streak_message = StreakMaintained\<rparr>,
       points_earned_total = 25, points_base = 25, points_bonuses = 0, points_now = 120,
       milestone = no_milestone,
       level = \<lparr>level_up = False, current_level = 1, previous_level = 1,
                level_result_info = LEVELS ! 1\<rparr>\<rparr> \<and>
   calculate_level 120 = 1 \<and> calculate_level (120 - 25) = 0 \<and>
   level_up (check_level_progression {} (stored (row 1 1 103 1 (Some ''2024-01-06'')))) \<and>
   calculate_level 103 = 1 \<and> calculate_level (103 - 3) = 1"
proof -
  have a: "level_up (check_level_progression {} (stored (row 1 1 103 1 (Some ''2024-01-06''))))"
    by (simp add: check_level_progression_def get_current_points_def get_user_stats_def
        stored_row row_fields get_previous_level_def level_cases Let_def)
  have b: "calculate_level 103 = 1" "calculate_level (103 - 3) = 1"
    by (simp_all add: level_cases)
  show ?thesis
    using b
    apply (simp add: a)
    apply (simp add: record_engagement_def valid_actions record_daily_engagement_def stored_def
      process_streak_update_def get_user_stats_def row_def parse_jan days_between_jan
      maintain_streak_def calculate_points_def base_points_table calculate_bonuses_def
      add_points_def update_user_stats_def check_milestones_def STREAK_MILESTONES_def
      check_level_progression_def get_current_points_def
      get_previous_level_def level_cases consolidate_results_def Let_def get_level_info_def)
    apply (simp add: LEVELS_def)
    done
qed

section \<open>Milestones\<close>


lemma milestone_points_nonneg: "(days, pts, msg) \<in> set STREAK_MILESTONES \<Longrightarrow> 0 < pts"
  by (auto simp: STREAK_MILESTONES_def)






section \<open>A second call on the same day\<close>

lemma same_streak_refl: "user_stats_row db = Some s \<Longrightarrow> same_streak db db"
  by (simp add: same_streak_def)

lemma same_streak_trans: "same_streak a b \<Longrightarrow> same_streak b c \<Longrightarrow> same_streak a c"
  by (auto simp: same_streak_def)

lemma same_streak_add_points:
  "user_stats_row db = Some s \<Longrightarrow> same_streak db (add_points F kr kw p db)"
  using add_points_cases [of F kr kw p db]
  by (auto simp: same_streak_def row_def)

lemma same_streak_milestone_insert:
  "user_stats_row db = Some s \<Longrightarrow>
   same_streak db (case add_streak_milestone F days db of Inr d \<Rightarrow> d | Inl e \<Rightarrow> db)"
  by (simp add: add_streak_milestone_def same_streak_def)

lemma same_streak_milestones_loop:
  "user_stats_row db = Some s \<Longrightarrow> same_streak db (fst (check_milestones_loop F cs ms db))"
proof (induction ms)
  case Nil
  then show ?case by (simp add: same_streak_def)
next
  case (Cons m ms)
  obtain days pts msg where m: "m = (days, pts, msg)" by (cases m) auto
  have a: "same_streak db (add_points F MilestoneRead MilestoneWrite pts db)"
    using Cons.prems by (rule same_streak_add_points)
  then obtain s1 where s1: "user_stats_row (add_points F MilestoneRead MilestoneWrite pts db) = Some s1"
    by (auto simp: same_streak_def)
  show ?case
    using Cons same_streak_trans [OF a same_streak_milestone_insert [OF s1]]
    by (simp add: m Let_def)
qed

lemma process_same_day:
  assumes "user_stats_row db = Some s" and "last_activity_date s = Some (isoformat today)"
    and "valid_date today" and "StreakRead \<notin> F"
  shows "process_streak_update F today db = Inr (db, maintain_streak s)"
  using assms
  by (simp add: process_streak_update_def get_user_stats_def isoformat_nonempty
      parse_date_isoformat days_between_def)

lemma process_read_fails:
  "StreakRead \<in> F \<Longrightarrow> process_streak_update F today db = Inl OperationalError"
  by (simp add: process_streak_update_def get_user_stats_def)

lemma same_day_database:
  assumes "user_stats_row db = Some s" and "last_activity_date s = Some (isoformat today)"
    and "valid_date today"
  shows "same_streak db (fst (record_engagement F today a md db))"
proof (cases "is_valid_action a \<and> LedgerWrite \<notin> F")
  case False
  then show ?thesis
    using assms(1)
    by (auto simp: record_engagement_database record_daily_engagement_def same_streak_def)
next
  case True
  obtain db1 where db1: "record_daily_engagement F today a db = Inr db1"
    and r1: "user_stats_row db1 = Some s"
    using True assms(1) by (simp add: record_daily_engagement_def)
  have s01: "same_streak db db1" using assms(1) r1 by (simp add: same_streak_def)
  show ?thesis
  proof (cases "StreakRead \<in> F")
    case True
    then show ?thesis
      using \<open>is_valid_action a \<and> LedgerWrite \<notin> F\<close> db1 s01
      by (simp add: record_engagement_database process_read_fails)
  next
    case False
    have p: "process_streak_update F today db1 = Inr (db1, maintain_streak s)"
      using process_same_day [OF r1 assms(2,3) False] .
    have a: "same_streak db1 (fst (calculate_points F today a md db1))"
      using same_streak_add_points [OF r1] by (simp add: calculate_points_def Let_def)
    then obtain s3 where s3: "user_stats_row (fst (calculate_points F today a md db1)) = Some s3"
      by (auto simp: same_streak_def)
    have b: "same_streak (fst (calculate_points F today a md db1))
               (fst (check_milestones F (streak_current (maintain_streak s))
                      (fst (calculate_points F today a md db1))))"
      using same_streak_milestones_loop [OF s3] by (simp add: check_milestones_def)
    show ?thesis
      using \<open>is_valid_action a \<and> LedgerWrite \<notin> F\<close> db1 p
        same_streak_trans [OF s01 same_streak_trans [OF a b]]
      by (simp add: record_engagement_database)
  qed
qed


lemma record_engagement_result:
  "snd (record_engagement F today a md db) =
     (if \<not> is_valid_action a then ErrorResponse (InvalidAction a)
      else case record_daily_engagement F today a db of
        Inl e \<Rightarrow> ErrorResponse ProcessingError
      | Inr db1 \<Rightarrow>
          (case process_streak_update F today db1 of
             Inl e \<Rightarrow> ErrorResponse ProcessingError
           | Inr (db2, sr) \<Rightarrow>
               Success (consolidate_results F a sr (snd (calculate_points F today a md db2))
                 (snd (check_milestones F (streak_current sr)
                        (fst (calculate_points F today a md db2))))
                 (check_level_progression F
                    (fst (check_milestones F (streak_current sr)
                           (fst (calculate_points F today a md db2)))))
                 (fst (check_milestones F (streak_current sr)
                        (fst (calculate_points F today a md db2)))))))"
  by (simp add: record_engagement_def Let_def case_prod_beta split: sum.splits)

lemma same_day_result:
  assumes "user_stats_row db = Some s" and "last_activity_date s = Some (isoformat today)"
    and "valid_date today"
  shows "(\<forall>r. snd (record_engagement F today a md db) = Success r \<longrightarrow>
            streak r = maintain_streak s) \<and>
         (is_valid_action a \<and> LedgerWrite \<notin> F \<and> StreakRead \<notin> F \<longrightarrow>
            (\<exists>r. snd (record_engagement F today a md db) = Success r))"
proof (cases "is_valid_action a \<and> LedgerWrite \<notin> F \<and> StreakRead \<notin> F")
  case False
  then show ?thesis
    by (auto simp: record_engagement_result record_daily_engagement_def process_read_fails)
next
  case True
  obtain db1 where db1: "record_daily_engagement F today a db = Inr db1"
    and r1: "user_stats_row db1 = Some s"
    using True assms(1) by (simp add: record_daily_engagement_def)
  have p: "process_streak_update F today db1 = Inr (db1, maintain_streak s)"
    using process_same_day [OF r1 assms(2,3)] True by simp
  show ?thesis
    using True db1 p by (simp add: record_engagement_result consolidate_results_def)
qed

text \<open>
  C4. The stored date is today's. Whatever the action, the metadata and the accesses
  that fail, a call leaves the current streak, the longest streak, the streak days and
  the date of the row as they were, and so does a second call on the same day; each
  call that returns a success reports the Maintain result with the stored streak; and a
  call with a valid action whose ledger write and row read succeed does return a
  success.
\<close>

theorem same_day_idempotence:
  assumes "user_stats_row db = Some s" and "last_activity_date s = Some (isoformat today)"
    and "valid_date today"
  shows "let once = record_engagement F today a md db;
             twice = record_engagement F' today a' md' (fst once)
         in same_streak db (fst once) \<and> same_streak (fst once) (fst twice) \<and>
            (\<exists>s1 s2. user_stats_row (fst once) = Some s1 \<and> user_stats_row (fst twice) = Some s2 \<and>
               current_streak s1 = current_streak s \<and> current_streak s2 = current_streak s1) \<and>
            (\<forall>r. snd once = Success r \<longrightarrow>
               streak r = \<lparr>streak_updated = False, streak_current = current_streak s,
                           streak_message = StreakMaintained\<rparr>) \<and>
            (\<forall>r. snd twice = Success r \<longrightarrow>
               streak r = \<lparr>streak_updated = False, streak_current = current_streak s,
                           streak_message = StreakMaintained\<rparr>) \<and>
            (is_valid_action a \<and> LedgerWrite \<notin> F \<and> StreakRead \<notin> F \<longrightarrow>
               (\<exists>r. snd once = Success r))"
proof -
  have a: "same_streak db (fst (record_engagement F today a md db))"
    using same_day_database [OF assms] .
  then obtain s1 where s1: "user_stats_row (fst (record_engagement F today a md db)) = Some s1"
    and e1: "current_streak s1 = current_streak s"
    and d1: "last_activity_date s1 = Some (isoformat today)"
    using assms(1,2) by (auto simp: same_streak_def)
  have b: "same_streak (fst (record_engagement F today a md db))
             (fst (record_engagement F' today a' md' (fst (record_engagement F today a md db))))"
    using same_day_database [OF s1 d1 assms(3)] .
  then obtain s2 where
    s2: "user_stats_row (fst (record_engagement F' today a' md'
           (fst (record_engagement F today a md db)))) = Some s2"
    and e2: "current_streak s2 = current_streak s1"
    using s1 by (auto simp: same_streak_def)
  show ?thesis
    unfolding Let_def
    using a b s1 s2 e1 e2 same_day_result [OF assms, of F a md]
      same_day_result [OF s1 d1 assms(3), of F' a' md']
    by (simp add: maintain_streak_def)
qed

text \<open>Two calls on Saturday 6 January 2024, on a row dated that day.\<close>

theorem same_day_idempotence_witness:
  "same_streak (stored (row 3 5 54 7 (Some ''2024-01-06'')))
     (fst (record_engagement {} (jan 6) ''goal_checked'' None
        (stored (row 3 5 54 7 (Some ''2024-01-06''))))) \<and>
   same_streak
     (fst (record_engagement {} (jan 6) ''goal_checked'' None
        (stored (row 3 5 54 7 (Some ''2024-01-06'')))))
     (fst (record_engagement {} (jan 6) ''transaction_added'' None
        (fst (record_engagement {} (jan 6) ''goal_checked'' None
           (stored (row 3 5 54 7 (Some ''2024-01-06'')))))))"
proof -
  have l: "last_activity_date (row 3 5 54 7 (Some ''2024-01-06'')) = Some (isoformat (jan 6))"
    by (simp add: row_fields isoformat_jan)
  have v: "valid_date (jan 6)" by (simp add: valid_jan)
  from same_day_idempotence [OF stored_row l v, of "{}" "''goal_checked''" None "{}"
      "''transaction_added''" None]
  show ?thesis
    by (simp add: Let_def)
qed


section \<open>The totals over a sequence of calls\<close>

lemma totals_le_refl: "user_stats_row db = Some s \<Longrightarrow> totals_le db db"
  by (simp add: totals_le_def)


















section \<open>Failures of the store during a call\<close>






section \<open>The level and the progress that are reported\<close>

lemma level_of_zero: "calculate_level 0 = 0"
  by (simp add: level_cases)

lemma levels_length: "length LEVELS = 10"
  by (simp add: LEVELS_def)

lemma progress_level_points:
  "progress_level (get_user_progress F db) =
     calculate_level (progress_points (get_user_progress F db))"
  by (simp add: get_user_progress_def get_default_progress_def get_user_stats_def Let_def
      level_of_zero split: option.splits)

lemma percentage_at_max_tier:
  assumes "progress_level (get_user_progress F db) = length LEVELS - 1"
  shows "progress_percentage (get_user_progress F db) = 100"
proof (cases "ProgressRead \<in> F \<or> user_stats_row db = None")
  case True
  then have "progress_level (get_user_progress F db) = 0"
    by (auto simp: get_user_progress_def get_default_progress_def get_user_stats_def)
  then show ?thesis using assms by (simp add: levels_length)
next
  case False
  then obtain s where s: "user_stats_row db = Some s" and f: "ProgressRead \<notin> F" by auto
  have "calculate_level (total_points s) = length LEVELS - 1"
    using assms s f by (simp add: get_user_progress_def get_user_stats_def Let_def)
  then show ?thesis
    using s f by (simp add: get_user_progress_def get_user_stats_def Let_def round1_100)
qed

lemma progress_points_stored:
  "user_stats_row db = Some s \<Longrightarrow> ProgressRead \<notin> F \<Longrightarrow>
   progress_points (get_user_progress F db) = total_points s"
  by (simp add: get_user_progress_def get_user_stats_def Let_def)


text \<open>
  C5. For every point total \<open>p \<ge> 0\<close> the level \<open>L = calculate_level p\<close> is an index of
  the table, the threshold of tier \<open>L\<close> is at most \<open>p\<close>, and either \<open>L\<close> is the last
  tier or \<open>p\<close> is below the threshold of tier \<open>L + 1\<close>. In every snapshot that
  \<^verbatim>\<open>get_user_progress\<close> returns, the level is the level of the points it reports, the
  percentage lies between 0 and 100, and it is 100 when the level is the last tier. The
  points it reports are those of the stored row when the row is read.
\<close>

theorem level_consistency_and_progress_bound:
  "(0 \<le> p \<longrightarrow>
      (let L = calculate_level p in
         L < length LEVELS \<and> level_points (LEVELS ! L) \<le> p \<and>
         (L = length LEVELS - 1 \<or> p < level_points (LEVELS ! (L + 1))))) \<and>
   (let pr = get_user_progress F db in
      progress_level pr = calculate_level (progress_points pr) \<and>
      0 \<le> progress_percentage pr \<and> progress_percentage pr \<le> 100 \<and>
      (progress_level pr = length LEVELS - 1 \<longrightarrow> progress_percentage pr = 100)) \<and>
   (\<forall>s. user_stats_row db = Some s \<and> ProgressRead \<notin> F \<longrightarrow>
      progress_points (get_user_progress F db) = total_points s)"
  unfolding Let_def
  using level_threshold [of p] level_lt [of p] percentage_bounds [of F db]
    percentage_at_max_tier [of F db] progress_level_points [of F db]
    progress_points_stored [of db _ F]
  by blast

text \<open>
  The theorem at 250 points (tier 1, between the thresholds 100 and 300) and at 5000
  points (the last tier, where the percentage is 100).
\<close>

theorem level_consistency_and_progress_bound_witness:
  "calculate_level 250 = 1 \<and> level_points (LEVELS ! 1) \<le> 250 \<and>
   250 < level_points (LEVELS ! 2) \<and>
   progress_points (get_user_progress {} (stored (row 0 0 250 0 None))) = 250 \<and>
   progress_level (get_user_progress {} (stored (row 0 0 250 0 None))) = 1 \<and>
   progress_percentage (get_user_progress {} (stored (row 0 0 250 0 None))) \<le> 100 \<and>
   progress_points (get_user_progress {} (stored (row 0 0 5000 0 None))) = 5000 \<and>
   progress_level (get_user_progress {} (stored (row 0 0 5000 0 None))) = 9 \<and>
   progress_percentage (get_user_progress {} (stored (row 0 0 5000 0 None))) = 100"
proof -
  have l: "calculate_level 250 = 1" "calculate_level 5000 = 9" "length LEVELS - 1 = 9"
    by (simp_all add: level_cases LEVELS_def)
  have c: "ProgressRead \<notin> {}" by simp
  from level_consistency_and_progress_bound [of 250 "{}" "stored (row 0 0 250 0 None)"]
    level_consistency_and_progress_bound [of 5000 "{}" "stored (row 0 0 5000 0 None)"]
  show ?thesis
    unfolding Let_def using l c
    by (simp add: stored_row row_fields numeral_2_eq_2)
qed





end
